theory Spec2Isabelle
  imports Complex_Main
begin

section \<open>The cached-session gate of the authentication setup\<close>

text \<open>
  The setup file of the test suite (the second document of
  \<^verbatim>\<open>tests/api/health.spec.ts\<close>, the project's \<^verbatim>\<open>auth.setup.ts\<close>) holds the function
  \<^verbatim>\<open>isAuthStateValid\<close> and the setup step \<^verbatim>\<open>setup('authenticate', ...)\<close>. Both are embedded
  here. What the program takes from Node and Playwright is made explicit: the file system,
  the clock, the console and the browser context are fields of a \<open>world\<close>; the functions
  \<^verbatim>\<open>JSON.parse\<close> and \<^verbatim>\<open>JSON.stringify\<close> and the coercion of a non-primitive operand of
  \<^verbatim>\<open>>\<close> and \<^verbatim>\<open><\<close> are parameters, so that every theorem holds whatever they compute.
\<close>

subsection \<open>JavaScript values\<close>

text \<open>
  A JavaScript number is an IEEE double: not-a-number, a finite value or an infinity.
  The program only compares numbers, and \<^verbatim>\<open><\<close> on doubles is the order of the values
  they denote, so a finite double is represented by the real number it denotes
  (\<^verbatim>\<open>-0\<close> and \<^verbatim>\<open>+0\<close> are not told apart by any operation used here).
\<close>

datatype number = NaN | Fin real | PosInf | NegInf

text \<open>
  What \<^verbatim>\<open>JSON.parse\<close> returns. An object is the list of its own properties, each name
  once.
\<close>

datatype json =
    JNull
  | JBool bool
  | JNum number
  | JStr string
  | JArr "json list"
  | JObj "(string \<times> json) list"

text \<open>The result of reading a property: \<^verbatim>\<open>undefined\<close>, or a value of the parsed document.\<close>

datatype jsval = Undefined | Value json

datatype js_error = TypeError | SyntaxError | SystemError string

type_synonym 'a result = "js_error + 'a"

text \<open>
  \<^verbatim>\<open>x < y\<close> on numbers: false as soon as one side is not-a-number.
\<close>

fun num_less :: "number \<Rightarrow> number \<Rightarrow> bool" where
  "num_less (Fin a) (Fin b) = (a < b)"
| "num_less (Fin a) PosInf = True"
| "num_less NegInf (Fin b) = True"
| "num_less NegInf PosInf = True"
| "num_less _ _ = False"

text \<open>
  \<^verbatim>\<open>v.k\<close> for the three property names the program reads, \<^verbatim>\<open>cookies\<close>, \<^verbatim>\<open>length\<close> and
  \<^verbatim>\<open>expires\<close>. Reading a property of \<^verbatim>\<open>null\<close> throws a TypeError. Booleans and numbers
  have none of the three; a string and an array have \<^verbatim>\<open>length\<close>; an object has its own
  properties (none of the three names is inherited from \<^verbatim>\<open>Object.prototype\<close>). The
  program only asks whether a \<^verbatim>\<open>length\<close> is zero, which does not depend on the unit in
  which a string is measured.
\<close>

fun get_prop :: "json \<Rightarrow> string \<Rightarrow> jsval result" where
  "get_prop JNull k = Inl TypeError"
| "get_prop (JBool b) k = Inr Undefined"
| "get_prop (JNum n) k = Inr Undefined"
| "get_prop (JStr s) k =
     (if k = ''length'' then Inr (Value (JNum (Fin (real (length s))))) else Inr Undefined)"
| "get_prop (JArr xs) k =
     (if k = ''length'' then Inr (Value (JNum (Fin (real (length xs))))) else Inr Undefined)"
| "get_prop (JObj kvs) k =
     (case map_of kvs k of None \<Rightarrow> Inr Undefined | Some v \<Rightarrow> Inr (Value v))"

text \<open>\<^verbatim>\<open>v.k\<close> where \<^verbatim>\<open>v\<close> may itself be \<^verbatim>\<open>undefined\<close>: that read throws as well.\<close>

fun get_member :: "jsval \<Rightarrow> string \<Rightarrow> jsval result" where
  "get_member Undefined k = Inl TypeError"
| "get_member (Value v) k = get_prop v k"

text \<open>ToBoolean, as \<^verbatim>\<open>!v\<close> applies it.\<close>

fun truthy :: "jsval \<Rightarrow> bool" where
  "truthy Undefined = False"
| "truthy (Value JNull) = False"
| "truthy (Value (JBool b)) = b"
| "truthy (Value (JNum n)) = (n \<noteq> NaN \<and> n \<noteq> Fin 0)"
| "truthy (Value (JStr s)) = (s \<noteq> [])"
| "truthy (Value (JArr xs)) = True"
| "truthy (Value (JObj kvs)) = True"

text \<open>\<^verbatim>\<open>v === 0\<close>: true only for the number zero.\<close>

fun strict_eq_zero :: "jsval \<Rightarrow> bool" where
  "strict_eq_zero (Value (JNum (Fin r))) = (r = 0)"
| "strict_eq_zero _ = False"

subsection \<open>The library functions the program calls\<close>

text \<open>
  \<open>JSON_parse\<close> throws (\<open>Inl\<close>) or returns a value. \<open>JSON_stringify\<close> is the serialisation
  Playwright writes. \<open>ToNumber\<close> is the coercion \<^verbatim>\<open>ToNumber(ToPrimitive(v))\<close> that a
  comparison with a number applies to a string, an array or an object; it may throw.
\<close>

record library =
  JSON_parse :: "string \<Rightarrow> json result"
  JSON_stringify :: "json \<Rightarrow> string"
  ToNumber :: "json \<Rightarrow> number result"

text \<open>The operand of a comparison with a number, as a number.\<close>

fun to_number :: "library \<Rightarrow> jsval \<Rightarrow> number result" where
  "to_number lib Undefined = Inr NaN"
| "to_number lib (Value JNull) = Inr (Fin 0)"
| "to_number lib (Value (JBool b)) = Inr (Fin (if b then 1 else 0))"
| "to_number lib (Value (JNum n)) = Inr n"
| "to_number lib (Value v) = ToNumber lib v"

subsection \<open>The world: files, clock, browser context, what was done\<close>

text \<open>
  A path holds a file with its text, or something \<^verbatim>\<open>fs.readFileSync\<close> cannot read
  (a directory, a file without read permission).
\<close>

datatype node = File string | Unreadable

datatype event = Console_log string | Navigate string | Write_file string string

text \<open>
  \<open>cwd\<close> is the working directory of the process, \<open>None\<close> when it cannot be determined
  (it has been removed: \<^verbatim>\<open>process.cwd()\<close> then throws).
  \<open>clock\<close> is the value of \<^verbatim>\<open>Date.now() / 1000\<close>, a finite double. \<open>writable p\<close> says
  whether a write to \<open>p\<close> succeeds. \<open>server url st\<close> is what navigating to \<open>url\<close> does to a
  browser context whose storage state is \<open>st\<close>: it fails, or leaves the context with a
  new storage state. \<open>trace\<close> lists the effects of the run so far, oldest first.
\<close>

record world =
  cwd :: "string option"
  files :: "string \<Rightarrow> node option"
  writable :: "string \<Rightarrow> bool"
  clock :: real
  browser :: json
  server :: "string \<Rightarrow> json \<Rightarrow> json result"
  trace :: "event list"

definition AUTH_STATE_PATH :: string where
  "AUTH_STATE_PATH = ''.auth/state.json''"

text \<open>
  \<^verbatim>\<open>path.resolve(p)\<close> for a relative path without \<^verbatim>\<open>.\<close> or \<^verbatim>\<open>..\<close> segments. It asks for
  the working directory, and throws when there is none; otherwise the path is taken in
  that directory (an absolute, normalised path).
\<close>

definition path_resolve :: "string option \<Rightarrow> string \<Rightarrow> string result" where
  "path_resolve d p =
     (case d of
        None \<Rightarrow> Inl (SystemError ''ENOENT'')
      | Some dir \<Rightarrow> Inr (if dir = ''/'' then ''/'' @ p else dir @ ''/'' @ p))"

definition existsSync :: "world \<Rightarrow> string \<Rightarrow> bool" where
  "existsSync w p = (files w p \<noteq> None)"

definition readFileSync :: "world \<Rightarrow> string \<Rightarrow> string result" where
  "readFileSync w p =
     (case files w p of
        None \<Rightarrow> Inl (SystemError ''ENOENT'')
      | Some Unreadable \<Rightarrow> Inl (SystemError ''EACCES'')
      | Some (File text) \<Rightarrow> Inr text)"

subsection \<open>isAuthStateValid\<close>

text \<open>
  \<^verbatim>\<open>xs.some(f)\<close> on an array: the elements in order, stopping at the first one \<open>f\<close>
  accepts; an exception of \<open>f\<close> ends the loop.
\<close>

fun some :: "(json \<Rightarrow> bool result) \<Rightarrow> json list \<Rightarrow> bool result" where
  "some f [] = Inr False"
| "some f (x # xs) =
     (case f x of
        Inl e \<Rightarrow> Inl e
      | Inr b \<Rightarrow> if b then Inr True else some f xs)"

text \<open>
  \<^verbatim>\<open>v.some(f)\<close> for any value \<open>v\<close>: only an array has a callable \<^verbatim>\<open>some\<close>; on anything
  else the call throws a TypeError.
\<close>

fun call_some :: "jsval \<Rightarrow> (json \<Rightarrow> bool result) \<Rightarrow> bool result" where
  "call_some (Value (JArr xs)) f = some f xs"
| "call_some _ f = Inl TypeError"

text \<open>
  The callback \<^verbatim>\<open>cookie.expires > 0 && cookie.expires < now\<close>.
\<close>

definition cookie_expired :: "library \<Rightarrow> real \<Rightarrow> json \<Rightarrow> bool result" where
  "cookie_expired lib now cookie =
     (case get_prop cookie ''expires'' of
        Inl e \<Rightarrow> Inl e
      | Inr ex \<Rightarrow>
          (case to_number lib ex of
             Inl e \<Rightarrow> Inl e
           | Inr n \<Rightarrow>
               if \<not> num_less (Fin 0) n then Inr False
               else Inr (num_less n (Fin now))))"

text \<open>The body of the \<^verbatim>\<open>try\<close> block.\<close>

definition isAuthStateValid_try :: "library \<Rightarrow> world \<Rightarrow> string \<Rightarrow> bool result" where
  "isAuthStateValid_try lib w fullPath =
     (case readFileSync w fullPath of
        Inl e \<Rightarrow> Inl e
      | Inr raw \<Rightarrow>
     (case JSON_parse lib raw of
        Inl e \<Rightarrow> Inl e
      | Inr state \<Rightarrow>
     (case get_prop state ''cookies'' of
        Inl e \<Rightarrow> Inl e
      | Inr cookies \<Rightarrow>
          if \<not> truthy cookies then Inr False
          else
     (case get_member cookies ''length'' of
        Inl e \<Rightarrow> Inl e
      | Inr len \<Rightarrow>
          if strict_eq_zero len then Inr False
          else
            let now = clock w in
     (case call_some cookies (cookie_expired lib now) of
        Inl e \<Rightarrow> Inl e
      | Inr hasExpired \<Rightarrow> Inr (\<not> hasExpired))))))"

text \<open>
  The function: the path is resolved, which happens before the \<^verbatim>\<open>try\<close> block, so that
  an exception of \<^verbatim>\<open>path.resolve\<close> leaves the function; then the existence test; then
  the \<^verbatim>\<open>try\<close> block, whose \<^verbatim>\<open>catch\<close> turns every exception into \<^verbatim>\<open>false\<close>.
\<close>

definition isAuthStateValid :: "library \<Rightarrow> world \<Rightarrow> bool result" where
  "isAuthStateValid lib w =
     (case path_resolve (cwd w) AUTH_STATE_PATH of
        Inl e \<Rightarrow> Inl e
      | Inr fullPath \<Rightarrow>
          if \<not> existsSync w fullPath then Inr False
          else
            (case isAuthStateValid_try lib w fullPath of
               Inl e \<Rightarrow> Inr False
             | Inr b \<Rightarrow> Inr b))"

subsection \<open>The setup step\<close>

text \<open>The two console messages; the dash of the source is U+2014, three bytes in UTF-8.\<close>

definition em_dash :: string where
  "em_dash = [CHR 0xE2, CHR 0x80, CHR 0x94]"

definition msg_reusing :: string where
  "msg_reusing = ''[auth] Reusing cached session '' @ em_dash @ '' cookies still valid.''"

definition msg_authenticating :: string where
  "msg_authenticating = ''[auth] No valid session found '' @ em_dash @ '' authenticating...''"

definition console_log :: "world \<Rightarrow> string \<Rightarrow> world" where
  "console_log w msg = w\<lparr>trace := trace w @ [Console_log msg]\<rparr>"

text \<open>
  \<^verbatim>\<open>await page.goto(url)\<close>: the navigation is rejected, or the browser context holds
  what the server left in it.
\<close>

definition page_goto :: "world \<Rightarrow> string \<Rightarrow> unit result \<times> world" where
  "page_goto w url =
     (case server w url (browser w) of
        Inl e \<Rightarrow> (Inl e, w)
      | Inr st \<Rightarrow> (Inr (), w\<lparr>browser := st, trace := trace w @ [Navigate url]\<rparr>))"

text \<open>
  The browser keeps a cookie until it expires: at the instant \<open>t\<close> a context reports a
  cookie when it is a session cookie (\<^verbatim>\<open>expires\<close> is \<^verbatim>\<open>-1\<close>, or there is none) or when its
  \<^verbatim>\<open>expires\<close> is later than \<open>t\<close>.
\<close>

definition held_at :: "real \<Rightarrow> json \<Rightarrow> bool" where
  "held_at t c =
     (case c of
        JObj kvs \<Rightarrow>
          (case map_of kvs ''expires'' of
             Some (JNum n) \<Rightarrow> n = Fin (- 1) \<or> num_less (Fin t) n
           | _ \<Rightarrow> True)
      | _ \<Rightarrow> True)"

text \<open>
  The storage state a context reports at the instant \<open>t\<close>: of its \<^verbatim>\<open>cookies\<close>, those it
  still holds; everything else as it is.
\<close>

fun report_at :: "real \<Rightarrow> string \<times> json \<Rightarrow> string \<times> json" where
  "report_at t (k, JArr cs) =
     (if k = ''cookies'' then (k, JArr (filter (held_at t) cs)) else (k, JArr cs))"
| "report_at t kv = kv"

definition storage_state_at :: "real \<Rightarrow> json \<Rightarrow> json" where
  "storage_state_at t st = (case st of JObj kvs \<Rightarrow> JObj (map (report_at t) kvs) | _ \<Rightarrow> st)"

text \<open>
  \<^verbatim>\<open>await page.context().storageState({ path })\<close>, Playwright's capture of the context:
  the storage state that the context reports at the instant of the call (its origins,
  and its cookies that have not expired) is serialised and written to the file at
  \<open>path\<close>, replacing what was there. The path is relative and is taken in the working
  directory; the promise is rejected when there is none and when the write fails. The
  value the call returns is not used by the program.
\<close>

definition storageState :: "library \<Rightarrow> world \<Rightarrow> string \<Rightarrow> unit result \<times> world" where
  "storageState lib w p =
     (case path_resolve (cwd w) p of
        Inl e \<Rightarrow> (Inl e, w)
      | Inr full \<Rightarrow>
          let text = JSON_stringify lib (storage_state_at (clock w) (browser w))
          in if writable w full
             then (Inr (), w\<lparr>files := (files w)(full \<mapsto> File text),
                              trace := trace w @ [Write_file full text]\<rparr>)
             else (Inl (SystemError ''EACCES''), w))"

text \<open>
  \<^verbatim>\<open>setup('authenticate', async ({ page }) => ...)\<close>: an \<^verbatim>\<open>await\<close> that is rejected ends
  the step with that error.
\<close>

definition authenticate :: "library \<Rightarrow> world \<Rightarrow> unit result \<times> world" where
  "authenticate lib w =
     (case isAuthStateValid lib w of
        Inl e \<Rightarrow> (Inl e, w)
      | Inr valid \<Rightarrow>
          if valid then (Inr (), console_log w msg_reusing)
          else
            let w1 = console_log w msg_authenticating in
            (case page_goto w1 ''/'' of
               (Inl e, w2) \<Rightarrow> (Inl e, w2)
             | (Inr u, w2) \<Rightarrow> storageState lib w2 AUTH_STATE_PATH))"

section \<open>What the properties speak about\<close>

text \<open>
  A cookie record of a persisted session state: an object whose \<^verbatim>\<open>expires\<close> is a number
  or is absent. (The other fields of a cookie are never read by the gate, so nothing is
  asked of them.)
\<close>

definition cookie_record :: "json \<Rightarrow> bool" where
  "cookie_record c =
     (case c of
        JObj kvs \<Rightarrow>
          (case map_of kvs ''expires'' of
             None \<Rightarrow> True
           | Some (JNum n) \<Rightarrow> True
           | Some _ \<Rightarrow> False)
      | _ \<Rightarrow> False)"

text \<open>The \<^verbatim>\<open>expires\<close> of a cookie record, \<open>None\<close> when the field is absent.\<close>

definition expires :: "json \<Rightarrow> number option" where
  "expires c =
     (case c of
        JObj kvs \<Rightarrow> (case map_of kvs ''expires'' of Some (JNum n) \<Rightarrow> Some n | _ \<Rightarrow> None)
      | _ \<Rightarrow> None)"

text \<open>
  A JSON value is a session state when it is an object whose \<^verbatim>\<open>cookies\<close> is an array of
  cookie records; \<open>SessionState_cookies\<close> gives that array.
\<close>

definition SessionState_cookies :: "json \<Rightarrow> json list option" where
  "SessionState_cookies st =
     (case st of
        JObj kvs \<Rightarrow>
          (case map_of kvs ''cookies'' of
             Some (JArr cs) \<Rightarrow> if list_all cookie_record cs then Some cs else None
           | _ \<Rightarrow> None)
      | _ \<Rightarrow> None)"

text \<open>The resolved path of the state file, when the working directory is there.\<close>

definition statePath :: "world \<Rightarrow> string result" where
  "statePath w = path_resolve (cwd w) AUTH_STATE_PATH"

text \<open>
  The cookies of the session state successfully parsed from the state file: \<open>None\<close> when
  the file is absent or unreadable, when its text is not JSON, or when the parsed value
  is not a session state.
\<close>

definition session_cookies :: "library \<Rightarrow> world \<Rightarrow> json list option" where
  "session_cookies lib w =
     (case statePath w of
        Inl e \<Rightarrow> None
      | Inr p \<Rightarrow>
          (case files w p of
             Some (File raw) \<Rightarrow>
               (case JSON_parse lib raw of
                  Inr st \<Rightarrow> SessionState_cookies st
                | Inl e \<Rightarrow> None)
           | _ \<Rightarrow> None))"

text \<open>A cookie record that the callback of \<^verbatim>\<open>some\<close> accepts at the instant \<open>now\<close>.\<close>

definition expired_at :: "real \<Rightarrow> json \<Rightarrow> bool" where
  "expired_at now c =
     (case expires c of
        None \<Rightarrow> False
      | Some n \<Rightarrow> num_less (Fin 0) n \<and> num_less n (Fin now))"

text \<open>
  The condition on one cookie in the words of the specification: the cookie has no fixed
  expiry (\<^verbatim>\<open>expires\<close> absent or \<^verbatim>\<open>-1\<close>), or its expiry is strictly later than the check
  instant.
\<close>

definition spec_unexpired :: "real \<Rightarrow> json \<Rightarrow> bool" where
  "spec_unexpired now c =
     (case expires c of
        None \<Rightarrow> True
      | Some n \<Rightarrow> n = Fin (- 1) \<or> num_less (Fin now) n)"

text \<open>An \<^verbatim>\<open>expires\<close> that is zero or negative.\<close>

definition at_most_zero :: "number \<Rightarrow> bool" where
  "at_most_zero n = (case n of Fin r \<Rightarrow> r \<le> 0 | NegInf \<Rightarrow> True | _ \<Rightarrow> False)"

text \<open>
  The number of writes to a file that the setup step makes when it is run in \<open>w\<close>: the
  \<open>Write_file\<close> events it adds to the trace.
\<close>

fun is_write :: "event \<Rightarrow> bool" where
  "is_write (Write_file p t) = True"
| "is_write _ = False"

definition writes_of_run :: "library \<Rightarrow> world \<Rightarrow> nat" where
  "writes_of_run lib w =
     length (filter is_write (drop (length (trace w)) (trace (snd (authenticate lib w)))))"

section \<open>Example worlds\<close>

text \<open>
  The examples are state files as Playwright writes them, that is
  \<^verbatim>\<open>JSON.stringify(state, undefined, 2)\<close>: two spaces of indentation, one member per line.
  A cookie of an example is given by its name, the decimal text of its \<^verbatim>\<open>expires\<close> and
  the value of that text.
\<close>

definition nl :: string where
  "nl = [CHR 0x0A]"

definition cookie :: "string \<times> string \<times> real \<Rightarrow> json" where
  "cookie d =
     (case d of (name, digits, e) \<Rightarrow>
        JObj [(''name'', JStr name), (''value'', JStr ''1''), (''domain'', JStr ''localhost''),
              (''path'', JStr ''/''), (''expires'', JNum (Fin e)), (''httpOnly'', JBool False),
              (''secure'', JBool False), (''sameSite'', JStr ''Lax'')])"

definition cookie_text :: "string \<times> string \<times> real \<Rightarrow> string" where
  \<open>cookie_text d =
     (case d of (name, digits, e) \<Rightarrow>
        ''    {'' @ nl @
        ''      "name": "'' @ name @ ''",'' @ nl @
        ''      "value": "1",'' @ nl @
        ''      "domain": "localhost",'' @ nl @
        ''      "path": "/",'' @ nl @
        ''      "expires": '' @ digits @ '','' @ nl @
        ''      "httpOnly": false,'' @ nl @
        ''      "secure": false,'' @ nl @
        ''      "sameSite": "Lax"'' @ nl @
        ''    }'')\<close>

fun join_lines :: "string list \<Rightarrow> string" where
  "join_lines [] = []"
| "join_lines [x] = x"
| "join_lines (x # y # ys) = x @ '','' @ nl @ join_lines (y # ys)"

definition state_of :: "json list \<Rightarrow> json" where
  "state_of cs = JObj [(''cookies'', JArr cs), (''origins'', JArr [])]"

definition state_text :: "string list \<Rightarrow> string" where
  \<open>state_text cs =
     ''{'' @ nl @
     ''  "cookies": '' @ (if cs = [] then ''[]'' else ''['' @ nl @ join_lines cs @ nl @ ''  ]'') @
     '','' @ nl @
     ''  "origins": []'' @ nl @
     ''}''\<close>

text \<open>
  The cookie sets of the examples. The check instant of every example is 1700000000:
  \<open>future_cookies\<close> expire later, \<open>past_cookies\<close> one second earlier, \<open>boundary_cookies\<close>
  at that very instant, \<open>epoch_cookies\<close> carry \<^verbatim>\<open>expires = 0\<close>; \<open>session_only\<close> is a single
  session cookie (\<^verbatim>\<open>expires = -1\<close>); \<open>fresh_cookies\<close> and \<open>stale_cookies\<close> hold it beside a
  cookie that expires later, respectively one second earlier.
\<close>

definition session_cookie :: "string \<times> string \<times> real" where
  "session_cookie = (''csrf'', ''-1'', - 1)"

definition future_cookies :: "(string \<times> string \<times> real) list" where
  "future_cookies = [(''sid'', ''2000000000'', 2000000000)]"

definition past_cookies :: "(string \<times> string \<times> real) list" where
  "past_cookies = [(''sid'', ''1699999999'', 1699999999)]"

definition boundary_cookies :: "(string \<times> string \<times> real) list" where
  "boundary_cookies = [(''sid'', ''1700000000'', 1700000000)]"

definition epoch_cookies :: "(string \<times> string \<times> real) list" where
  "epoch_cookies = [(''sid'', ''0'', 0)]"

definition session_only :: "(string \<times> string \<times> real) list" where
  "session_only = [session_cookie]"

definition fresh_cookies :: "(string \<times> string \<times> real) list" where
  "fresh_cookies = [session_cookie, (''sid'', ''2000000000'', 2000000000)]"

definition stale_cookies :: "(string \<times> string \<times> real) list" where
  "stale_cookies = [session_cookie, (''sid'', ''1699999999'', 1699999999)]"

definition cookie_sets :: "(string \<times> string \<times> real) list list" where
  "cookie_sets =
     [[], future_cookies, past_cookies, boundary_cookies, epoch_cookies, session_only,
      fresh_cookies]"

text \<open>
  The JSON texts of the examples with the values they denote: the state files above, a
  state whose \<^verbatim>\<open>cookies\<close> holds a number in place of a cookie record, one whose
  \<^verbatim>\<open>cookies\<close> holds \<^verbatim>\<open>null\<close>, the empty object and \<^verbatim>\<open>null\<close>.
\<close>

definition documents :: "(string \<times> json) list" where
  \<open>documents =
     map (\<lambda>ds. (state_text (map cookie_text ds), state_of (map cookie ds))) cookie_sets @
     [(''{"cookies":[42],"origins":[]}'', state_of [JNum (Fin 42)]),
      (''{"cookies":[null],"origins":[]}'', state_of [JNull]),
      (''{}'', JObj []),
      (''null'', JNull)]\<close>

text \<open>
  The library restricted to the examples: \<open>JSON_parse\<close> and \<open>JSON_stringify\<close> are the two
  directions of the table, and every text outside it stands for a text that is not JSON
  (the examples use \<^verbatim>\<open>{not json\<close>). No example compares a string, an array or an object
  with a number, so \<open>ToNumber\<close> is never reached.
\<close>

definition example_lib :: library where
  "example_lib =
     \<lparr>JSON_parse = (\<lambda>s. case map_of documents s of None \<Rightarrow> Inl SyntaxError | Some v \<Rightarrow> Inr v),
      JSON_stringify =
        (\<lambda>v. case map_of (map (\<lambda>(t, u). (u, t)) documents) v of None \<Rightarrow> [] | Some t \<Rightarrow> t),
      ToNumber = (\<lambda>v. Inr NaN)\<rparr>"

text \<open>
  A project in \<^verbatim>\<open>/repo\<close> whose state path holds \<open>f\<close>, at the check instant 1700000000,
  with a browser context without cookies and a server that leaves the context as it is.
\<close>

definition example_world :: "node option \<Rightarrow> world" where
  "example_world f =
     \<lparr>cwd = Some ''/repo'',
      files = (\<lambda>p. if p = ''/repo/.auth/state.json'' then f else None),
      writable = (\<lambda>p. True),
      clock = 1700000000,
      browser = state_of [],
      server = (\<lambda>url st. Inr st),
      trace = []\<rparr>"

text \<open>The example world whose state file is the serialisation of the cookies \<open>ds\<close>.\<close>

definition stored :: "(string \<times> string \<times> real) list \<Rightarrow> world" where
  "stored ds = example_world (Some (File (state_text (map cookie_text ds))))"

text \<open>
  The example world without a state file, in which the browser context holds the cookies
  \<open>ds\<close> once the login has been done.
\<close>

definition logged_in :: "(string \<times> string \<times> real) list \<Rightarrow> world" where
  "logged_in ds = (example_world None)\<lparr>browser := state_of (map cookie ds)\<rparr>"

section \<open>Auxiliary facts\<close>

lemmas program_defs =
  isAuthStateValid_def isAuthStateValid_try_def existsSync_def readFileSync_def
  cookie_expired_def path_resolve_def AUTH_STATE_PATH_def statePath_def

lemmas property_defs =
  session_cookies_def SessionState_cookies_def cookie_record_def expires_def

lemmas example_defs =
  stored_def example_world_def example_lib_def documents_def cookie_sets_def
  state_text_def cookie_text_def nl_def state_of_def cookie_def
  session_cookie_def future_cookies_def past_cookies_def boundary_cookies_def
  epoch_cookies_def session_only_def fresh_cookies_def

lemma num_less_asym: "num_less a b \<Longrightarrow> \<not> num_less b a"
  by (cases a; cases b) simp_all

lemma at_most_zero_not_positive: "at_most_zero n \<Longrightarrow> \<not> num_less (Fin 0) n"
  by (cases n) (simp_all add: at_most_zero_def)

lemma cookie_expired_record:
  "cookie_record c \<Longrightarrow> cookie_expired lib now c = Inr (expired_at now c)"
  by (auto simp: cookie_record_def cookie_expired_def expired_at_def expires_def
      split: json.splits option.splits)

lemma some_cookie_expired:
  "list_all cookie_record cs \<Longrightarrow>
   some (cookie_expired lib now) cs = Inr (list_ex (expired_at now) cs)"
  by (induction cs) (simp_all add: cookie_expired_record)

text \<open>The gate on a state file that holds a session state.\<close>

lemma gate_on_state:
  assumes sp: "statePath w = Inr p"
      and f: "files w p = Some (File raw)"
      and p: "JSON_parse lib raw = Inr st"
      and s: "SessionState_cookies st = Some cs"
  shows "isAuthStateValid lib w = Inr (cs \<noteq> [] \<and> \<not> list_ex (expired_at (clock w)) cs)"
proof -
  from s obtain kvs where
    st: "st = JObj kvs" and
    c: "map_of kvs ''cookies'' = Some (JArr cs)" and
    r: "list_all cookie_record cs"
    by (auto simp: SessionState_cookies_def split: option.splits json.splits if_splits)
  from sp have sp': "path_resolve (cwd w) AUTH_STATE_PATH = Inr p"
    by (simp add: statePath_def)
  show ?thesis
    using sp' f p st c r
    by (cases cs) (simp_all add: isAuthStateValid_def isAuthStateValid_try_def existsSync_def
        readFileSync_def some_cookie_expired cookie_expired_record Let_def)
qed

lemma gate_on_session:
  assumes "session_cookies lib w = Some cs"
  shows "isAuthStateValid lib w = Inr (cs \<noteq> [] \<and> \<not> list_ex (expired_at (clock w)) cs)"
proof -
  from assms obtain p raw st where
    "statePath w = Inr p" "files w p = Some (File raw)" "JSON_parse lib raw = Inr st"
    "SessionState_cookies st = Some cs"
    by (auto simp: session_cookies_def split: option.splits node.splits sum.splits)
  then show ?thesis by (rule gate_on_state)
qed

lemma list_ex_expired_at:
  "list_ex (expired_at now) cs =
   (\<exists>c\<in>set cs. \<exists>n. expires c = Some n \<and> num_less (Fin 0) n \<and> num_less n (Fin now))"
  by (auto simp: list_ex_iff expired_at_def split: option.splits)

text \<open>
  Once the path is resolved the \<^verbatim>\<open>catch\<close> leaves no exception, and the gate returns a
  boolean. Without a working directory the exception of \<^verbatim>\<open>path.resolve\<close> leaves the gate.
\<close>

lemma gate_returns:
  assumes "statePath w = Inr p"
  shows "\<exists>b. isAuthStateValid lib w = Inr b"
proof -
  from assms have sp: "path_resolve (cwd w) AUTH_STATE_PATH = Inr p"
    by (simp add: statePath_def)
  show ?thesis
    by (cases "isAuthStateValid_try lib w p") (auto simp: isAuthStateValid_def sp)
qed

lemma gate_raises:
  "cwd w = None \<Longrightarrow> isAuthStateValid lib w = Inl (SystemError ''ENOENT'')"
  by (simp add: isAuthStateValid_def path_resolve_def)

lemma gate_absent:
  "statePath w = Inr p \<Longrightarrow> files w p = None \<Longrightarrow> isAuthStateValid lib w = Inr False"
  by (simp add: isAuthStateValid_def existsSync_def statePath_def)

lemma gate_unreadable:
  "statePath w = Inr p \<Longrightarrow> files w p = Some Unreadable \<Longrightarrow>
   isAuthStateValid lib w = Inr False"
  by (simp add: isAuthStateValid_def isAuthStateValid_try_def existsSync_def readFileSync_def
      statePath_def)

lemma gate_not_json:
  "statePath w = Inr p \<Longrightarrow> files w p = Some (File raw) \<Longrightarrow> JSON_parse lib raw = Inl e \<Longrightarrow>
   isAuthStateValid lib w = Inr False"
  by (simp add: isAuthStateValid_def isAuthStateValid_try_def existsSync_def readFileSync_def
      statePath_def)

text \<open>
  After the two tests on \<^verbatim>\<open>state.cookies\<close>, a value that is not an array makes the call
  of \<^verbatim>\<open>some\<close> throw.
\<close>

lemma cookies_not_array:
  assumes "\<forall>cs. v \<noteq> Value (JArr cs)"
  shows "call_some v f = Inl TypeError"
proof (cases v)
  case Undefined
  then show ?thesis by simp
next
  case (Value j)
  with assms show ?thesis by (cases j) simp_all
qed

lemma gate_no_cookies_array:
  assumes sp: "statePath w = Inr p"
      and f: "files w p = Some (File raw)"
      and p: "JSON_parse lib raw = Inr st"
      and n: "\<forall>cs. get_prop st ''cookies'' \<noteq> Inr (Value (JArr cs))"
  shows "isAuthStateValid lib w = Inr False"
proof -
  from sp have sp': "path_resolve (cwd w) AUTH_STATE_PATH = Inr p"
    by (simp add: statePath_def)
  show ?thesis
  proof (cases "get_prop st ''cookies''")
    case (Inl e)
    with sp' f p show ?thesis
      by (simp add: isAuthStateValid_def isAuthStateValid_try_def existsSync_def
          readFileSync_def)
  next
    case (Inr v)
    with n have "\<forall>cs. v \<noteq> Value (JArr cs)" by simp
    then have "call_some v (cookie_expired lib (clock w)) = Inl TypeError"
      by (rule cookies_not_array)
    with sp' f p Inr show ?thesis
      by (simp add: isAuthStateValid_def isAuthStateValid_try_def existsSync_def
          readFileSync_def Let_def split: sum.splits)
  qed
qed

text \<open>
  Reading \<^verbatim>\<open>expires\<close> of \<^verbatim>\<open>null\<close> throws, so \<^verbatim>\<open>some\<close> over an array that holds \<^verbatim>\<open>null\<close>
  either throws or has found an expired cookie before.
\<close>

lemma some_with_null:
  "JNull \<in> set cs \<Longrightarrow> some (cookie_expired lib now) cs \<noteq> Inr False"
proof (induction cs)
  case Nil
  then show ?case by simp
next
  case (Cons x xs)
  show ?case
  proof (cases "x = JNull")
    case True
    then show ?thesis by (simp add: cookie_expired_def)
  next
    case False
    with Cons show ?thesis by (auto split: sum.splits)
  qed
qed

lemma gate_null_cookie:
  assumes sp: "statePath w = Inr p"
      and f: "files w p = Some (File raw)"
      and p: "JSON_parse lib raw = Inr st"
      and c: "get_prop st ''cookies'' = Inr (Value (JArr cs))"
      and n: "JNull \<in> set cs"
  shows "isAuthStateValid lib w = Inr False"
proof -
  from sp have sp': "path_resolve (cwd w) AUTH_STATE_PATH = Inr p"
    by (simp add: statePath_def)
  from n have "some (cookie_expired lib (clock w)) cs \<noteq> Inr False"
    by (rule some_with_null)
  with sp' f p c show ?thesis
    by (auto simp: isAuthStateValid_def isAuthStateValid_try_def existsSync_def
        readFileSync_def Let_def split: sum.splits)
qed

text \<open>What a context reports has no expired cookie in it.\<close>

lemma held_at_not_expired: "held_at t c \<Longrightarrow> \<not> expired_at t c"
  by (auto simp: held_at_def expired_at_def expires_def dest: num_less_asym
      split: json.splits option.splits)

lemma map_of_report_at:
  "map_of (map (report_at t) kvs) ''cookies'' = Some (JArr cs) \<Longrightarrow> \<forall>c\<in>set cs. held_at t c"
proof (induction kvs)
  case Nil
  then show ?case by simp
next
  case (Cons kv kvs)
  obtain k v where kv: "kv = (k, v)" by (cases kv)
  show ?case
  proof (cases "k = ''cookies''")
    case True
    with Cons.prems kv show ?thesis by (cases v) auto
  next
    case False
    with kv have "fst (report_at t kv) \<noteq> ''cookies''" by (cases v) auto
    with Cons.prems have "map_of (map (report_at t) kvs) ''cookies'' = Some (JArr cs)"
      by (cases "report_at t kv") auto
    then show ?thesis by (rule Cons.IH)
  qed
qed

lemma reported_cookies_held:
  assumes "SessionState_cookies (storage_state_at t st) = Some cs"
  shows "\<forall>c\<in>set cs. held_at t c"
proof (cases st)
  case (JObj kvs)
  with assms have "map_of (map (report_at t) kvs) ''cookies'' = Some (JArr cs)"
    by (auto simp: SessionState_cookies_def storage_state_at_def
        split: option.splits json.splits if_splits)
  then show ?thesis by (rule map_of_report_at)
qed (use assms in \<open>simp_all add: SessionState_cookies_def storage_state_at_def\<close>)

text \<open>The setup step, by the verdict of the gate.\<close>

lemma authenticate_valid:
  "isAuthStateValid lib w = Inr True \<Longrightarrow>
   authenticate lib w = (Inr (), console_log w msg_reusing)"
  by (simp add: authenticate_def)

lemma authenticate_invalid:
  "isAuthStateValid lib w = Inr False \<Longrightarrow>
   authenticate lib w =
     (case page_goto (console_log w msg_authenticating) ''/'' of
        (Inl e, w2) \<Rightarrow> (Inl e, w2)
      | (Inr u, w2) \<Rightarrow> storageState lib w2 AUTH_STATE_PATH)"
  by (simp add: authenticate_def Let_def)

lemma authenticate_raises:
  "isAuthStateValid lib w = Inl e \<Longrightarrow> authenticate lib w = (Inl e, w)"
  by (simp add: authenticate_def)

lemma writes_of_run_valid:
  "isAuthStateValid lib w = Inr True \<Longrightarrow> writes_of_run lib w = 0"
  by (simp add: writes_of_run_def authenticate_valid console_log_def)

lemma writes_of_run_invalid:
  "isAuthStateValid lib w = Inr False \<Longrightarrow>
   writes_of_run lib w = (if fst (authenticate lib w) = Inr () then 1 else 0) \<and>
   (fst (authenticate lib w) \<noteq> Inr () \<longrightarrow> files (snd (authenticate lib w)) = files w)"
  by (simp add: writes_of_run_def authenticate_invalid page_goto_def storageState_def
      console_log_def Let_def split: sum.splits)

lemma writes_of_run_raises:
  "isAuthStateValid lib w = Inl e \<Longrightarrow> writes_of_run lib w = 0"
  by (simp add: writes_of_run_def authenticate_raises)

section \<open>The verdict of the gate on a parsed session state\<close>

text \<open>
  Claim C1, as the code has it. For a state file that parses to a session state with at
  least one cookie, and for every check instant, \<open>isAuthStateValid\<close> returns true if and
  only if every cookie whose \<^verbatim>\<open>expires\<close> is a positive number has an \<^verbatim>\<open>expires\<close> that is
  not earlier than the check instant. A cookie without \<^verbatim>\<open>expires\<close>, or with
  \<^verbatim>\<open>expires = -1\<close>, is not among them and so never makes the result false.
\<close>

theorem isAuthStateValid_iff_no_positive_expiry_before_now:
  assumes "session_cookies lib w = Some cs" and "cs \<noteq> []"
  shows "(isAuthStateValid lib w = Inr True) =
         (\<forall>c\<in>set cs. \<forall>n. expires c = Some n \<longrightarrow> num_less (Fin 0) n \<longrightarrow>
                          \<not> num_less n (Fin (clock w)))"
  using assms by (auto simp: gate_on_session list_ex_expired_at)

text \<open>
  The theorem at the state file that holds a session cookie and a cookie expiring in
  2033, checked in 2023: the verdict is true.
\<close>

theorem isAuthStateValid_iff_no_positive_expiry_before_now_witness:
  "session_cookies example_lib (stored fresh_cookies) = Some (map cookie fresh_cookies) \<and>
   map cookie fresh_cookies \<noteq> [] \<and>
   isAuthStateValid example_lib (stored fresh_cookies) = Inr True"
proof -
  have h: "session_cookies example_lib (stored fresh_cookies) = Some (map cookie fresh_cookies)"
    by (simp add: program_defs property_defs example_defs)
  have n: "map cookie fresh_cookies \<noteq> []"
    by (simp add: fresh_cookies_def)
  have r: "\<forall>c\<in>set (map cookie fresh_cookies). \<forall>n. expires c = Some n \<longrightarrow>
             num_less (Fin 0) n \<longrightarrow> \<not> num_less n (Fin (clock (stored fresh_cookies)))"
    by (simp add: property_defs example_defs)
  from isAuthStateValid_iff_no_positive_expiry_before_now [OF h n] r
  have "isAuthStateValid example_lib (stored fresh_cookies) = Inr True"
    by simp
  with h n show ?thesis by simp
qed

text \<open>
  Claim C1 as the specification words it asks every cookie with an \<^verbatim>\<open>expires\<close> other
  than \<^verbatim>\<open>-1\<close> to expire strictly later than the check instant. The state file with the
  single cookie \<^verbatim>\<open>expires = 1700000000\<close>, checked at the instant 1700000000, is judged
  valid although that cookie does not expire strictly later.
\<close>

theorem strictly_later_iff_counterexample:
  "session_cookies example_lib (stored boundary_cookies) = Some (map cookie boundary_cookies) \<and>
   map cookie boundary_cookies \<noteq> [] \<and>
   (isAuthStateValid example_lib (stored boundary_cookies) = Inr True) \<noteq>
   list_all (spec_unexpired (clock (stored boundary_cookies))) (map cookie boundary_cookies)"
  by (simp add: program_defs property_defs example_defs spec_unexpired_def)

text \<open>
  Claim C3. A state file that parses to a session state without cookies is judged
  invalid, whatever the check instant.
\<close>

theorem isAuthStateValid_no_cookies:
  "session_cookies lib w = Some [] \<Longrightarrow> isAuthStateValid lib w = Inr False"
  by (simp add: gate_on_session)

theorem isAuthStateValid_no_cookies_witness:
  "session_cookies example_lib (stored []) = Some [] \<and>
   isAuthStateValid example_lib (stored []) = Inr False"
proof -
  have h: "session_cookies example_lib (stored []) = Some []"
    by (simp add: program_defs property_defs example_defs)
  from isAuthStateValid_no_cookies [OF h] h show ?thesis by simp
qed

text \<open>
  Claim C4. Only an expiry strictly before the check instant invalidates: when no
  cookie of a parsed, non-empty session state has an \<^verbatim>\<open>expires\<close> earlier than the check
  instant, the state is judged valid; an \<^verbatim>\<open>expires\<close> equal to the check instant is such
  a case.
\<close>

theorem isAuthStateValid_expiry_not_before_now:
  assumes "session_cookies lib w = Some cs" and "cs \<noteq> []"
      and "\<forall>c\<in>set cs. \<forall>n. expires c = Some n \<longrightarrow> \<not> num_less n (Fin (clock w))"
  shows "isAuthStateValid lib w = Inr True"
  using assms by (auto simp: gate_on_session list_ex_expired_at)

text \<open>The theorem at a cookie that expires at the check instant exactly.\<close>

theorem isAuthStateValid_expiry_not_before_now_witness:
  "session_cookies example_lib (stored boundary_cookies) = Some (map cookie boundary_cookies) \<and>
   expires (cookie (''sid'', ''1700000000'', 1700000000)) = Some (Fin (clock (stored boundary_cookies))) \<and>
   isAuthStateValid example_lib (stored boundary_cookies) = Inr True"
proof -
  have h: "session_cookies example_lib (stored boundary_cookies) = Some (map cookie boundary_cookies)"
    by (simp add: program_defs property_defs example_defs)
  have n: "map cookie boundary_cookies \<noteq> []"
    by (simp add: boundary_cookies_def)
  have e: "expires (cookie (''sid'', ''1700000000'', 1700000000)) =
           Some (Fin (clock (stored boundary_cookies)))"
    by (simp add: property_defs example_defs)
  have r: "\<forall>c\<in>set (map cookie boundary_cookies). \<forall>n. expires c = Some n \<longrightarrow>
             \<not> num_less n (Fin (clock (stored boundary_cookies)))"
    by (simp add: property_defs example_defs)
  from isAuthStateValid_expiry_not_before_now [OF h n r] h e show ?thesis by simp
qed

text \<open>
  Claim C5. A parsed, non-empty session state in which every cookie has an \<^verbatim>\<open>expires\<close>
  strictly later than the check instant is judged valid.
\<close>

theorem isAuthStateValid_all_in_future:
  assumes "session_cookies lib w = Some cs" and "cs \<noteq> []"
      and "\<forall>c\<in>set cs. \<exists>n. expires c = Some n \<and> num_less (Fin (clock w)) n"
  shows "isAuthStateValid lib w = Inr True"
proof -
  have "\<not> list_ex (expired_at (clock w)) cs"
    unfolding list_ex_expired_at
  proof
    assume "\<exists>c\<in>set cs. \<exists>n. expires c = Some n \<and> num_less (Fin 0) n \<and> num_less n (Fin (clock w))"
    then obtain c n where c: "c \<in> set cs" and n: "expires c = Some n"
      and b: "num_less n (Fin (clock w))"
      by blast
    from assms(3) c n have "num_less (Fin (clock w)) n" by auto
    with b show False by (simp add: num_less_asym)
  qed
  with assms(1,2) show ?thesis by (simp add: gate_on_session)
qed

theorem isAuthStateValid_all_in_future_witness:
  "session_cookies example_lib (stored future_cookies) = Some (map cookie future_cookies) \<and>
   isAuthStateValid example_lib (stored future_cookies) = Inr True"
proof -
  have h: "session_cookies example_lib (stored future_cookies) = Some (map cookie future_cookies)"
    by (simp add: program_defs property_defs example_defs)
  have n: "map cookie future_cookies \<noteq> []"
    by (simp add: future_cookies_def)
  have r: "\<forall>c\<in>set (map cookie future_cookies). \<exists>n. expires c = Some n \<and>
             num_less (Fin (clock (stored future_cookies))) n"
    by (simp add: property_defs example_defs)
  from isAuthStateValid_all_in_future [OF h n r] h show ?thesis by simp
qed

text \<open>
  Claim C10. The guard \<^verbatim>\<open>cookie.expires > 0\<close> makes every zero or negative \<^verbatim>\<open>expires\<close>
  count as no expiry at all, not \<^verbatim>\<open>-1\<close> alone. In a parsed, non-empty session state such
  a cookie never causes the verdict false: whenever the verdict is false, some cookie
  with a positive \<^verbatim>\<open>expires\<close> earlier than the check instant is there; and a state all of
  whose cookies have no \<^verbatim>\<open>expires\<close> or a zero or negative one is judged valid.
\<close>

theorem isAuthStateValid_ignores_expires_at_most_zero:
  assumes "session_cookies lib w = Some cs" and "cs \<noteq> []"
  shows "(isAuthStateValid lib w = Inr False \<longrightarrow>
            (\<exists>c\<in>set cs. \<exists>n. expires c = Some n \<and> \<not> at_most_zero n \<and>
                             num_less (Fin 0) n \<and> num_less n (Fin (clock w)))) \<and>
         ((\<forall>c\<in>set cs. \<forall>n. expires c = Some n \<longrightarrow> at_most_zero n) \<longrightarrow>
            isAuthStateValid lib w = Inr True)"
  using assms
  by (auto simp: gate_on_session list_ex_expired_at dest: at_most_zero_not_positive)

text \<open>The theorem at a cookie with \<^verbatim>\<open>expires = 0\<close>, the first instant of 1970.\<close>

theorem isAuthStateValid_ignores_expires_at_most_zero_witness:
  "session_cookies example_lib (stored epoch_cookies) = Some (map cookie epoch_cookies) \<and>
   expires (cookie (''sid'', ''0'', 0)) = Some (Fin 0) \<and>
   isAuthStateValid example_lib (stored epoch_cookies) = Inr True"
proof -
  have h: "session_cookies example_lib (stored epoch_cookies) = Some (map cookie epoch_cookies)"
    by (simp add: program_defs property_defs example_defs)
  have n: "map cookie epoch_cookies \<noteq> []"
    by (simp add: epoch_cookies_def)
  have e: "expires (cookie (''sid'', ''0'', 0)) = Some (Fin 0)"
    by (simp add: property_defs example_defs)
  have r: "\<forall>c\<in>set (map cookie epoch_cookies). \<forall>n. expires c = Some n \<longrightarrow> at_most_zero n"
    by (simp add: property_defs example_defs at_most_zero_def)
  from isAuthStateValid_ignores_expires_at_most_zero [OF h n] r h e show ?thesis by simp
qed

section \<open>Files that hold no session state\<close>

text \<open>
  Claim C2, as the code has it. Once the path of the state file is resolved, that is
  when the process has a working directory, \<open>isAuthStateValid\<close> never raises: it returns a
  boolean for every content of the state path, every library and every clock. It
  returns false when the state file is absent, when it cannot be read, when its text is
  not JSON, when the parsed value carries no array under \<^verbatim>\<open>cookies\<close> (the value is
  \<^verbatim>\<open>null\<close>, is not an object, has no \<^verbatim>\<open>cookies\<close>, or has a \<^verbatim>\<open>cookies\<close> of another shape), and
  when the array under \<^verbatim>\<open>cookies\<close> holds \<^verbatim>\<open>null\<close>.
\<close>

theorem isAuthStateValid_cache_miss:
  assumes "statePath w = Inr p"
  shows
  "(\<exists>b. isAuthStateValid lib w = Inr b) \<and>
   (files w p = None \<longrightarrow> isAuthStateValid lib w = Inr False) \<and>
   (files w p = Some Unreadable \<longrightarrow> isAuthStateValid lib w = Inr False) \<and>
   (\<forall>raw e. files w p = Some (File raw) \<longrightarrow> JSON_parse lib raw = Inl e \<longrightarrow>
       isAuthStateValid lib w = Inr False) \<and>
   (\<forall>raw st. files w p = Some (File raw) \<longrightarrow> JSON_parse lib raw = Inr st \<longrightarrow>
       (\<forall>cs. get_prop st ''cookies'' \<noteq> Inr (Value (JArr cs))) \<longrightarrow>
       isAuthStateValid lib w = Inr False) \<and>
   (\<forall>raw st cs. files w p = Some (File raw) \<longrightarrow> JSON_parse lib raw = Inr st \<longrightarrow>
       get_prop st ''cookies'' = Inr (Value (JArr cs)) \<longrightarrow> JNull \<in> set cs \<longrightarrow>
       isAuthStateValid lib w = Inr False)"
proof (intro conjI allI impI)
  show "\<exists>b. isAuthStateValid lib w = Inr b"
    using assms by (rule gate_returns)
next
  assume "files w p = None"
  with assms show "isAuthStateValid lib w = Inr False"
    by (rule gate_absent)
next
  assume "files w p = Some Unreadable"
  with assms show "isAuthStateValid lib w = Inr False"
    by (rule gate_unreadable)
next
  fix raw e
  assume "files w p = Some (File raw)" "JSON_parse lib raw = Inl e"
  with assms show "isAuthStateValid lib w = Inr False"
    by (rule gate_not_json)
next
  fix raw st
  assume "files w p = Some (File raw)" "JSON_parse lib raw = Inr st"
    "\<forall>cs. get_prop st ''cookies'' \<noteq> Inr (Value (JArr cs))"
  with assms show "isAuthStateValid lib w = Inr False"
    by (rule gate_no_cookies_array)
next
  fix raw st cs
  assume "files w p = Some (File raw)" "JSON_parse lib raw = Inr st"
    "get_prop st ''cookies'' = Inr (Value (JArr cs))" "JNull \<in> set cs"
  with assms show "isAuthStateValid lib w = Inr False"
    by (rule gate_null_cookie)
qed

text \<open>
  The theorem in the project \<^verbatim>\<open>/repo\<close> at five state paths: nothing there, a directory
  there, the text \<^verbatim>\<open>{not json\<close>, the JSON text \<^verbatim>\<open>{}\<close>, and a state whose \<^verbatim>\<open>cookies\<close> holds
  \<^verbatim>\<open>null\<close>.
\<close>

theorem isAuthStateValid_cache_miss_witness:
  \<open>statePath (example_world None) = Inr ''/repo/.auth/state.json'' \<and>
   files (example_world None) ''/repo/.auth/state.json'' = None \<and>
   isAuthStateValid example_lib (example_world None) = Inr False \<and>
   isAuthStateValid example_lib (example_world (Some Unreadable)) = Inr False \<and>
   JSON_parse example_lib ''{not json'' = Inl SyntaxError \<and>
   isAuthStateValid example_lib (example_world (Some (File ''{not json''))) = Inr False \<and>
   JSON_parse example_lib ''{}'' = Inr (JObj []) \<and>
   isAuthStateValid example_lib (example_world (Some (File ''{}''))) = Inr False \<and>
   JSON_parse example_lib ''{"cookies":[null],"origins":[]}'' = Inr (state_of [JNull]) \<and>
   isAuthStateValid example_lib (example_world (Some (File ''{"cookies":[null],"origins":[]}'')))
     = Inr False\<close>
proof -
  have sp: "statePath (example_world f) = Inr ''/repo/.auth/state.json''" for f
    by (simp add: program_defs example_defs)
  have fl: "files (example_world f) ''/repo/.auth/state.json'' = f" for f
    by (simp add: example_defs)
  from isAuthStateValid_cache_miss [OF sp [of None], of example_lib] fl [of None]
  have 1: "isAuthStateValid example_lib (example_world None) = Inr False"
    by blast
  from isAuthStateValid_cache_miss [OF sp [of "Some Unreadable"], of example_lib]
    fl [of "Some Unreadable"]
  have 2: "isAuthStateValid example_lib (example_world (Some Unreadable)) = Inr False"
    by blast
  have p3: "JSON_parse example_lib ''{not json'' = Inl SyntaxError"
    by (simp add: example_defs)
  from isAuthStateValid_cache_miss [OF sp [of "Some (File ''{not json'')"], of example_lib]
    fl [of "Some (File ''{not json'')"] p3
  have 3: "isAuthStateValid example_lib (example_world (Some (File ''{not json''))) = Inr False"
    by blast
  have p4: "JSON_parse example_lib ''{}'' = Inr (JObj [])"
    by (simp add: example_defs)
  have c4: "\<forall>cs. get_prop (JObj []) ''cookies'' \<noteq> Inr (Value (JArr cs))"
    by simp
  from isAuthStateValid_cache_miss [OF sp [of "Some (File ''{}'')"], of example_lib]
    fl [of "Some (File ''{}'')"] p4 c4
  have 4: "isAuthStateValid example_lib (example_world (Some (File ''{}''))) = Inr False"
    by blast
  have p5: \<open>JSON_parse example_lib ''{"cookies":[null],"origins":[]}'' = Inr (state_of [JNull])\<close>
    by (simp add: example_defs)
  have c5: "get_prop (state_of [JNull]) ''cookies'' = Inr (Value (JArr [JNull]))"
    by (simp add: state_of_def)
  have n5: "JNull \<in> set [JNull]"
    by simp
  from isAuthStateValid_cache_miss
    [OF sp [of \<open>Some (File ''{"cookies":[null],"origins":[]}'')\<close>], of example_lib]
    fl [of \<open>Some (File ''{"cookies":[null],"origins":[]}'')\<close>] p5 c5 n5
  have 5: \<open>isAuthStateValid example_lib
             (example_world (Some (File ''{"cookies":[null],"origins":[]}''))) = Inr False\<close>
    by blast
  from sp [of None] fl [of None] 1 2 p3 3 p4 4 p5 5 show ?thesis by simp
qed

text \<open>
  Claim C2 as the specification words it also asks false for a record whose fields do
  not have the expected shape. The state file \<^verbatim>\<open>{"cookies":[42],"origins":[]}\<close> is JSON,
  its value is no session state (the element of \<^verbatim>\<open>cookies\<close> is a number, not a cookie
  record), and it is judged valid: \<^verbatim>\<open>(42).expires\<close> is \<^verbatim>\<open>undefined\<close>, which is not greater
  than zero.
\<close>

theorem wrong_shape_counterexample:
  \<open>statePath (example_world (Some (File ''{"cookies":[42],"origins":[]}'')))
     = Inr ''/repo/.auth/state.json'' \<and>
   files (example_world (Some (File ''{"cookies":[42],"origins":[]}''))) ''/repo/.auth/state.json''
     = Some (File ''{"cookies":[42],"origins":[]}'') \<and>
   JSON_parse example_lib ''{"cookies":[42],"origins":[]}'' = Inr (state_of [JNum (Fin 42)]) \<and>
   SessionState_cookies (state_of [JNum (Fin 42)]) = None \<and>
   session_cookies example_lib (example_world (Some (File ''{"cookies":[42],"origins":[]}'')))
     = None \<and>
   isAuthStateValid example_lib (example_world (Some (File ''{"cookies":[42],"origins":[]}'')))
     = Inr True\<close>
  by (simp add: program_defs property_defs example_defs)

section \<open>The setup step and the capture\<close>

text \<open>
  Claim C6. A capture followed at once by the gate yields true: when the capture
  succeeds, the state it persisted is a session state, and at least one persisted
  cookie has no expiry or a future one, then \<open>isAuthStateValid\<close> run on the world the
  capture left, at the instant of the capture, returns true. The library is asked to
  read back what it wrote: \<^verbatim>\<open>JSON.parse(JSON.stringify(state))\<close> is the state.
\<close>

theorem capture_then_isAuthStateValid:
  assumes cap: "storageState lib w AUTH_STATE_PATH = (Inr (), w')"
      and rt: "JSON_parse lib (JSON_stringify lib (storage_state_at (clock w) (browser w)))
               = Inr (storage_state_at (clock w) (browser w))"
      and ss: "SessionState_cookies (storage_state_at (clock w) (browser w)) = Some cs"
      and one: "\<exists>c\<in>set cs. spec_unexpired (clock w) c"
  shows "isAuthStateValid lib w' = Inr True"
proof -
  let ?text = "JSON_stringify lib (storage_state_at (clock w) (browser w))"
  from cap obtain p where p: "statePath w = Inr p"
    and w': "w' = w\<lparr>files := (files w)(p \<mapsto> File ?text),
                     trace := trace w @ [Write_file p ?text]\<rparr>"
    by (auto simp: storageState_def statePath_def Let_def split: sum.splits if_splits)
  have sp: "statePath w' = Inr p"
    using p by (simp add: w' statePath_def)
  have f: "files w' p = Some (File ?text)"
    by (simp add: w')
  have "isAuthStateValid lib w' = Inr (cs \<noteq> [] \<and> \<not> list_ex (expired_at (clock w')) cs)"
    using sp f rt ss by (rule gate_on_state)
  moreover have "clock w' = clock w"
    by (simp add: w')
  moreover from one have "cs \<noteq> []"
    by auto
  moreover have "\<not> list_ex (expired_at (clock w)) cs"
    using reported_cookies_held [OF ss] by (auto simp: list_ex_iff dest: held_at_not_expired)
  ultimately show ?thesis by simp
qed

text \<open>
  The theorem at a context that holds a session cookie beside a cookie that expired one
  second before the capture: the capture persists the session cookie alone, and the
  gate returns true.
\<close>

theorem capture_then_isAuthStateValid_witness:
  "fst (storageState example_lib (logged_in stale_cookies) AUTH_STATE_PATH) = Inr () \<and>
   storage_state_at (clock (logged_in stale_cookies)) (browser (logged_in stale_cookies))
     = state_of (map cookie session_only) \<and>
   isAuthStateValid example_lib
     (snd (storageState example_lib (logged_in stale_cookies) AUTH_STATE_PATH)) = Inr True"
proof -
  have fs: "fst (storageState example_lib (logged_in stale_cookies) AUTH_STATE_PATH) = Inr ()"
    by (simp add: storageState_def Let_def logged_in_def example_world_def path_resolve_def
        AUTH_STATE_PATH_def)
  then have cap: "storageState example_lib (logged_in stale_cookies) AUTH_STATE_PATH
             = (Inr (), snd (storageState example_lib (logged_in stale_cookies) AUTH_STATE_PATH))"
    by (simp add: prod_eq_iff)
  have st: "storage_state_at (clock (logged_in stale_cookies)) (browser (logged_in stale_cookies))
            = state_of (map cookie session_only)"
    by (simp add: storage_state_at_def held_at_def logged_in_def stale_cookies_def example_defs)
  have rt: "JSON_parse example_lib (JSON_stringify example_lib (state_of (map cookie session_only)))
            = Inr (state_of (map cookie session_only))"
    by (simp add: example_defs)
  have ss: "SessionState_cookies (state_of (map cookie session_only)) = Some (map cookie session_only)"
    by (simp add: property_defs example_defs)
  have one: "\<exists>c\<in>set (map cookie session_only). spec_unexpired (clock (logged_in stale_cookies)) c"
    by (simp add: spec_unexpired_def property_defs example_defs)
  from capture_then_isAuthStateValid [OF cap rt [folded st] ss [folded st] one] fs st
  show ?thesis by simp
qed

text \<open>
  Claim C7. When the gate reports valid, the setup step does nothing but print its
  message: it ends without error, the files are what they were and nothing is written.
  A run writes the state file at most once, and only when the gate reported invalid; a
  run whose gate reported invalid and that ends without error has written it exactly
  once, and the files change in no other way.
\<close>

theorem authenticate_writes_only_when_invalid:
  "(isAuthStateValid lib w = Inr True \<longrightarrow>
      authenticate lib w = (Inr (), w\<lparr>trace := trace w @ [Console_log msg_reusing]\<rparr>) \<and>
      files (snd (authenticate lib w)) = files w \<and>
      writes_of_run lib w = 0) \<and>
   writes_of_run lib w \<le> 1 \<and>
   (writes_of_run lib w = 1 \<longrightarrow> isAuthStateValid lib w = Inr False) \<and>
   (files (snd (authenticate lib w)) \<noteq> files w \<longrightarrow> writes_of_run lib w = 1) \<and>
   (isAuthStateValid lib w = Inr False \<longrightarrow> fst (authenticate lib w) = Inr () \<longrightarrow>
      writes_of_run lib w = 1)"
proof (cases "isAuthStateValid lib w")
  case (Inl e)
  then show ?thesis
    by (simp add: authenticate_raises writes_of_run_raises)
next
  case (Inr b)
  show ?thesis
  proof (cases b)
    case True
    with Inr have v: "isAuthStateValid lib w = Inr True" by simp
    then show ?thesis
      by (simp add: authenticate_valid writes_of_run_valid console_log_def)
  next
    case False
    with Inr have v: "isAuthStateValid lib w = Inr False" by simp
    from writes_of_run_invalid [OF v] v show ?thesis
      by (auto split: if_splits)
  qed
qed

text \<open>
  The theorem at a run that finds a valid state file, and at a run that finds none and
  captures the context.
\<close>

theorem authenticate_writes_only_when_invalid_witness:
  "isAuthStateValid example_lib (stored future_cookies) = Inr True \<and>
   files (snd (authenticate example_lib (stored future_cookies))) = files (stored future_cookies) \<and>
   writes_of_run example_lib (stored future_cookies) = 0 \<and>
   isAuthStateValid example_lib (logged_in fresh_cookies) = Inr False \<and>
   fst (authenticate example_lib (logged_in fresh_cookies)) = Inr () \<and>
   writes_of_run example_lib (logged_in fresh_cookies) = 1"
proof -
  have v: "isAuthStateValid example_lib (stored future_cookies) = Inr True"
    by (simp add: program_defs example_defs)
  from authenticate_writes_only_when_invalid [of example_lib "stored future_cookies"] v
  have 1: "files (snd (authenticate example_lib (stored future_cookies)))
             = files (stored future_cookies) \<and>
           writes_of_run example_lib (stored future_cookies) = 0"
    by blast
  have i: "isAuthStateValid example_lib (logged_in fresh_cookies) = Inr False"
    by (simp add: program_defs logged_in_def example_world_def)
  have r: "fst (authenticate example_lib (logged_in fresh_cookies)) = Inr ()"
    unfolding authenticate_invalid [OF i]
    by (simp add: page_goto_def storageState_def console_log_def
        Let_def logged_in_def example_world_def path_resolve_def AUTH_STATE_PATH_def)
  from authenticate_writes_only_when_invalid [of example_lib "logged_in fresh_cookies"] i r
  have 2: "writes_of_run example_lib (logged_in fresh_cookies) = 1"
    by blast
  from v 1 i r 2 show ?thesis by simp
qed

text \<open>
  Claim C8. A capture that fails is not swallowed: when the gate reported invalid, the
  navigation succeeded and the write of the state file is rejected with an error, the
  setup step ends with that error.
\<close>

theorem capture_failure_propagates:
  assumes "isAuthStateValid lib w = Inr False"
      and "page_goto (console_log w msg_authenticating) ''/'' = (Inr (), w2)"
      and "fst (storageState lib w2 AUTH_STATE_PATH) = Inl e"
  shows "fst (authenticate lib w) = Inl e"
  using assms by (simp add: authenticate_invalid)

text \<open>The theorem at a project whose state path cannot be written.\<close>

theorem capture_failure_propagates_witness:
  "isAuthStateValid example_lib ((logged_in fresh_cookies)\<lparr>writable := (\<lambda>p. False)\<rparr>) = Inr False \<and>
   fst (page_goto (console_log ((logged_in fresh_cookies)\<lparr>writable := (\<lambda>p. False)\<rparr>)
                     msg_authenticating) ''/'') = Inr () \<and>
   fst (authenticate example_lib ((logged_in fresh_cookies)\<lparr>writable := (\<lambda>p. False)\<rparr>))
     = Inl (SystemError ''EACCES'')"
proof -
  let ?w = "(logged_in fresh_cookies)\<lparr>writable := (\<lambda>p. False)\<rparr>"
  let ?w2 = "snd (page_goto (console_log ?w msg_authenticating) ''/'')"
  have i: "isAuthStateValid example_lib ?w = Inr False"
    by (simp add: program_defs logged_in_def example_world_def)
  have gf: "fst (page_goto (console_log ?w msg_authenticating) ''/'') = Inr ()"
    by (simp add: page_goto_def console_log_def logged_in_def example_world_def)
  then have g: "page_goto (console_log ?w msg_authenticating) ''/'' = (Inr (), ?w2)"
    by (simp add: prod_eq_iff)
  have c: "fst (storageState example_lib ?w2 AUTH_STATE_PATH) = Inl (SystemError ''EACCES'')"
    by (simp add: storageState_def page_goto_def console_log_def Let_def logged_in_def
        example_world_def path_resolve_def)
  from capture_failure_propagates [OF i g c] i gf show ?thesis by simp
qed

end
